theory Spec2Isabelle
  imports Main "HOL-Library.Word"
begin

unbundle bit_operations_syntax

section \<open>Python values and exceptions\<close>

text \<open>
  The module \<open>rheeder.py\<close> defines one interface class, \<open>ReaderImp\<close>, and five
  subclasses. Every \<open>read\<close> method is modelled as a function that takes the reader
  object, the outside world and the path, and returns the outcome of the call (an
  exception on the left, the returned value on the right) together with the reader
  object and the world as the call leaves them.

  A Python \<open>str\<close> is represented by its UTF-8 encoding, a \<open>string\<close>; a Python
  \<open>bytes\<close> object is a list of 8-bit words.
\<close>

type_synonym str = string
type_synonym bytes = "8 word list"

text \<open>
  The exceptions that can leave a \<open>read\<close>. \<open>OSError\<close> carries its \<open>errno\<close>, for the
  failures of the operating system that have no exception class of their own.
  \<open>ClientError\<close> stands for any exception of a caller-supplied client (the object
  store's or the hosted repository's), with the client's own description of it.
\<close>

datatype exn =
    NotImplementedError
  | TypeError
  | AttributeError
  | FileNotFoundError
  | NotADirectoryError
  | IsADirectoryError
  | PermissionError
  | OSError nat
  | UnicodeDecodeError
  | ValueError
  | BinasciiError
  | ClientError string

section \<open>The outside world\<close>

text \<open>
  The collaborators are not part of the module; they are modelled as far as the module
  uses them. Caller-supplied clients and repositories are objects the reader holds a
  reference to; the world says how each of them answers.
\<close>

type_synonym ref = nat

text \<open>
  The file system is a tree. A regular file has its bytes and says whether this process
  may read it; a directory has its entries and says whether this process may read it and
  may search it. There are no symbolic links and no special files.
\<close>

datatype node =
    File bool bytes
  | Dir bool bool "(str \<times> node) list"

text \<open>The response of \<open>get_object\<close>: \<open>Body\<close> is what reading the body stream gives.\<close>

record response =
  Body :: "exn + bytes"

text \<open>
  What \<open>Repository.get_contents\<close> returns: one content file for a file path, a list
  of content files for a directory path.
\<close>

datatype content_file = ContentFile (content: str)

datatype contents = Single content_file | Listing "content_file list"

datatype io_event =
    FileOpen str
  | GetObject ref str str
  | GetContents ref str

text \<open>
  \<open>cwd\<close> names the current directory of the process, from the root; \<open>name_max\<close> and
  \<open>path_max\<close> are the limits of the file system on one name and on a whole path
  (\<open>path_max\<close> counts the terminating NUL). \<open>os_fault\<close> is a failure of the
  operating system on opening a path that the tree does not explain (no file descriptor
  left, an input/output error).
\<close>

record world =
  root_dir :: node
  cwd :: "str list"
  name_max :: nat
  path_max :: nat
  os_fault :: "str \<Rightarrow> exn option"
  s3 :: "ref \<Rightarrow> str \<Rightarrow> str \<Rightarrow> exn + response"
  github :: "ref \<Rightarrow> str \<Rightarrow> exn + contents"
  working_tree_dir :: "ref \<Rightarrow> str"
  trace :: "io_event list"

subsection \<open>\<open>os.path.join\<close> (POSIX)\<close>

definition sep :: str where
  "sep = ''/''"

definition startswith :: "str \<Rightarrow> str \<Rightarrow> bool" where
  "startswith s p = (take (length p) s = p)"

definition endswith :: "str \<Rightarrow> str \<Rightarrow> bool" where
  "endswith s p = (length p \<le> length s \<and> drop (length s - length p) s = p)"

definition isabs :: "str \<Rightarrow> bool" where
  "isabs s = startswith s sep"

text \<open>One round of the loop of \<open>posixpath.join\<close>: \<open>path\<close> so far, next component \<open>b\<close>.\<close>

definition join_step :: "str \<Rightarrow> str \<Rightarrow> str" where
  "join_step path b =
     (if startswith b sep then b
      else if path = [] \<or> endswith path sep then path @ b
      else path @ sep @ b)"

text \<open>
  \<open>def join(a, *p)\<close>: the function takes no keyword argument, so a call that passes
  one raises \<open>TypeError\<close> before the body runs. The third argument lists the keyword
  arguments of the call.
\<close>

definition os_path_join :: "str \<Rightarrow> str list \<Rightarrow> (string \<times> string) list \<Rightarrow> exn + str" where
  "os_path_join a p kwargs =
     (if kwargs \<noteq> [] then Inl TypeError else Inr (foldl join_step a p))"

subsection \<open>\<open>open(path, encoding="utf-8")\<close> and \<open>f.read()\<close>\<close>

definition cont :: "8 word \<Rightarrow> bool" where
  "cont b = (0x80 \<le> b \<and> b \<le> 0xBF)"

text \<open>Well-formed UTF-8 byte sequences (the strict decoder accepts exactly these).\<close>

fun utf8_wellformed :: "bytes \<Rightarrow> bool" where
  "utf8_wellformed [] = True"
| "utf8_wellformed (b # bs) =
     (if b \<le> 0x7F then utf8_wellformed bs
      else if 0xC2 \<le> b \<and> b \<le> 0xDF then
        (case bs of
           c1 # r \<Rightarrow> cont c1 \<and> utf8_wellformed r
         | _ \<Rightarrow> False)
      else if 0xE0 \<le> b \<and> b \<le> 0xEF then
        (case bs of
           c1 # c2 # r \<Rightarrow>
             (if b = 0xE0 then 0xA0 \<le> c1 \<and> c1 \<le> 0xBF
              else if b = 0xED then 0x80 \<le> c1 \<and> c1 \<le> 0x9F
              else cont c1)
             \<and> cont c2 \<and> utf8_wellformed r
         | _ \<Rightarrow> False)
      else if 0xF0 \<le> b \<and> b \<le> 0xF4 then
        (case bs of
           c1 # c2 # c3 # r \<Rightarrow>
             (if b = 0xF0 then 0x90 \<le> c1 \<and> c1 \<le> 0xBF
              else if b = 0xF4 then 0x80 \<le> c1 \<and> c1 \<le> 0x8F
              else cont c1)
             \<and> cont c2 \<and> cont c3 \<and> utf8_wellformed r
         | _ \<Rightarrow> False)
      else False)"

definition utf8_decode :: "bytes \<Rightarrow> exn + str" where
  "utf8_decode bs =
     (if utf8_wellformed bs then Inr (map (\<lambda>b. char_of (unat b)) bs)
      else Inl UnicodeDecodeError)"

definition CR :: char where
  "CR = CHR 0x0D"

definition LF :: char where
  "LF = CHR 0x0A"

text \<open>
  \<open>open\<close> is called without \<open>newline\<close>, so the text layer reads in universal
  newlines mode: \<open>\r\n\<close> and a lone \<open>\r\<close> come out as \<open>\n\<close>.
\<close>

fun universal_newlines :: "str \<Rightarrow> str" where
  "universal_newlines [] = []"
| "universal_newlines [c] = (if c = CR then [LF] else [c])"
| "universal_newlines (c # d # cs) =
     (if c = CR then
        (if d = LF then LF # universal_newlines cs
         else LF # universal_newlines (d # cs))
      else c # universal_newlines (d # cs))"

subsection \<open>Looking a path up\<close>

text \<open>What looking a path up gives: the node found, or why none was reached.\<close>

datatype resolution =
    Found node
  | NoEntry
  | NotADir
  | NoAccess
  | TooLong
  | NulByte
  | Fault exn

text \<open>The components of a path: \<open>path.split('/')\<close>.\<close>

fun split_sep :: "str \<Rightarrow> str list" where
  "split_sep [] = [[]]"
| "split_sep (c # cs) =
     (if c = CHR ''/'' then [] # split_sep cs
      else (case split_sep cs of
              [] \<Rightarrow> [[c]]
            | x # xs \<Rightarrow> (c # x) # xs))"

text \<open>
  The walk along the components left. The first argument is the limit on a name, the
  second the directory reached, above its ancestors up to the root. An empty component
  is skipped. Any other component needs the directory to be searchable; \<open>.\<close> stays,
  \<open>..\<close> goes up (the root is its own parent), a name is looked up among the entries.
  A regular file that is not the last component cannot be walked through.
\<close>

fun walk :: "nat \<Rightarrow> node list \<Rightarrow> str list \<Rightarrow> resolution" where
  "walk nmax [] cs = NoEntry"
| "walk nmax (d # up) [] = Found d"
| "walk nmax (File r bs # up) (c # cs) = NotADir"
| "walk nmax (Dir r x entries # up) (c # cs) =
     (if c = [] then walk nmax (Dir r x entries # up) cs
      else if \<not> x then NoAccess
      else if c = ''.'' then walk nmax (Dir r x entries # up) cs
      else if c = ''..'' then walk nmax (if up = [] then [Dir r x entries] else up) cs
      else if length c > nmax then TooLong
      else (case map_of entries c of
              None \<Rightarrow> NoEntry
            | Some n \<Rightarrow>
                (if cs = [] then Found n
                 else (case n of
                         File r' bs \<Rightarrow> NotADir
                       | Dir r' x' entries' \<Rightarrow> walk nmax (n # Dir r x entries # up) cs))))"

text \<open>The directories from the one reached down to the one named, without any check.\<close>

fun descend :: "node list \<Rightarrow> str list \<Rightarrow> node list" where
  "descend stack [] = stack"
| "descend [] (c # cs) = []"
| "descend (File r bs # up) (c # cs) = []"
| "descend (Dir r x entries # up) (c # cs) =
     (case map_of entries c of
        None \<Rightarrow> []
      | Some n \<Rightarrow> descend (n # Dir r x entries # up) cs)"

text \<open>
  Looking \<open>path\<close> up, as \<open>open\<close> does: Python refuses a NUL before the operating system
  sees the path; the operating system refuses the empty path and a path of \<open>path_max\<close>
  bytes or more, and walks from the root for an absolute path, from the current directory
  otherwise.
\<close>

definition resolve :: "world \<Rightarrow> str \<Rightarrow> resolution" where
  "resolve w path =
     (if CHR 0x00 \<in> set path then NulByte
      else (case os_fault w path of
              Some e \<Rightarrow> Fault e
            | None \<Rightarrow>
                (if path = [] then NoEntry
                 else if length path \<ge> path_max w then TooLong
                 else walk (name_max w)
                        (if isabs path then [root_dir w] else descend [root_dir w] (cwd w))
                        (split_sep path))))"

text \<open>An open text file: the bytes it holds.\<close>

datatype text_file = TextFile bytes

text \<open>
  \<open>open(path, encoding="utf-8")\<close>, for reading: each way of not reaching a readable
  regular file has its exception. \<open>ENAMETOOLONG\<close> is \<open>errno\<close> 36.
\<close>

definition builtin_open :: "world \<Rightarrow> str \<Rightarrow> (exn + text_file) \<times> world" where
  "builtin_open w path =
     ((case resolve w path of
         Found (File r bs) \<Rightarrow> if r then Inr (TextFile bs) else Inl PermissionError
       | Found (Dir r x entries) \<Rightarrow> if r then Inl IsADirectoryError else Inl PermissionError
       | NoEntry \<Rightarrow> Inl FileNotFoundError
       | NotADir \<Rightarrow> Inl NotADirectoryError
       | NoAccess \<Rightarrow> Inl PermissionError
       | TooLong \<Rightarrow> Inl (OSError 36)
       | NulByte \<Rightarrow> Inl ValueError
       | Fault e \<Rightarrow> Inl e),
      w\<lparr>trace := trace w @ [FileOpen path]\<rparr>)"

fun file_read :: "text_file \<Rightarrow> exn + str" where
  "file_read (TextFile bs) =
     (case utf8_decode bs of
        Inl e \<Rightarrow> Inl e
      | Inr s \<Rightarrow> Inr (universal_newlines s))"

text \<open>
  What \<open>with open(path, encoding="utf-8") as f: contents = f.read()\<close> leaves in
  \<open>contents\<close>, or the exception that leaves the statement.
\<close>

definition read_text :: "world \<Rightarrow> str \<Rightarrow> exn + str" where
  "read_text w path =
     (case fst (builtin_open w path) of
        Inl e \<Rightarrow> Inl e
      | Inr f \<Rightarrow> file_read f)"

subsection \<open>\<open>base64.b64decode\<close>\<close>

text \<open>The value of a character of the base64 alphabet; \<open>None\<close> for any other character.\<close>

definition table_a2b_base64 :: "char \<Rightarrow> 8 word option" where
  "table_a2b_base64 c =
     (let n = (of_char c :: nat) in
      if 65 \<le> n \<and> n \<le> 90 then Some (of_nat (n - 65))
      else if 97 \<le> n \<and> n \<le> 122 then Some (of_nat (n - 71))
      else if 48 \<le> n \<and> n \<le> 57 then Some (of_nat (n + 4))
      else if n = 43 then Some 62
      else if n = 47 then Some 63
      else None)"

text \<open>
  The loop of \<open>binascii.a2b_base64\<close> without strict mode, over the characters left:
  \<open>quad_pos\<close> is the position in the current group of four, \<open>leftchar\<close> the bits not
  yet written, \<open>pads\<close> the padding characters seen in a row, \<open>bin_data\<close> the bytes
  written. Characters outside the alphabet are skipped; padding that completes a group
  ends the decoding; an incomplete group at the end is an error.
\<close>

fun a2b_base64 :: "str \<Rightarrow> nat \<Rightarrow> 8 word \<Rightarrow> nat \<Rightarrow> bytes \<Rightarrow> exn + bytes" where
  "a2b_base64 [] quad_pos leftchar pads bin_data =
     (if quad_pos \<noteq> 0 then Inl BinasciiError else Inr bin_data)"
| "a2b_base64 (this_ch # rest) quad_pos leftchar pads bin_data =
     (if this_ch = CHR ''='' then
        (if quad_pos \<ge> 2 \<and> quad_pos + (pads + 1) \<ge> 4 then Inr bin_data
         else a2b_base64 rest quad_pos leftchar
                (if quad_pos \<ge> 2 then pads + 1 else pads) bin_data)
      else
        (case table_a2b_base64 this_ch of
           None \<Rightarrow> a2b_base64 rest quad_pos leftchar pads bin_data
         | Some v \<Rightarrow>
             (if quad_pos = 0 then a2b_base64 rest 1 v 0 bin_data
              else if quad_pos = 1 then
                a2b_base64 rest 2 (v AND 0x0F) 0
                  (bin_data @ [push_bit 2 leftchar OR drop_bit 4 v])
              else if quad_pos = 2 then
                a2b_base64 rest 3 (v AND 0x03) 0
                  (bin_data @ [push_bit 4 leftchar OR drop_bit 2 v])
              else
                a2b_base64 rest 0 0 0 (bin_data @ [push_bit 6 leftchar OR v]))))"

text \<open>
  \<open>b64decode(s)\<close> for a \<open>str\<close>, with the default \<open>validate=False\<close>: a string with
  a character outside ASCII is refused with \<open>ValueError\<close>.
\<close>

definition isascii :: "str \<Rightarrow> bool" where
  "isascii s = (\<not> list_ex (\<lambda>c. (of_char c :: nat) \<ge> 128) s)"

definition b64decode :: "str \<Rightarrow> exn + bytes" where
  "b64decode s =
     (if \<not> isascii s then Inl ValueError
      else a2b_base64 s 0 0 0 [])"

text \<open>
  The module does not encode. The contents API of the hosting service delivers
  \<open>content\<close> in base64 (RFC 4648, with padding), broken into lines; this is the
  encoding, as \<open>binascii.b2a_base64\<close> computes it: each character carries six bits.
\<close>

definition table_b2a_base64 :: "8 word \<Rightarrow> char" where
  "table_b2a_base64 v =
     (let n = unat (v AND 0x3F) in
      if n < 26 then char_of (n + 65)
      else if n < 52 then char_of (n + 71)
      else if n < 62 then char_of (n - 4)
      else if n = 62 then CHR ''+''
      else CHR ''/'')"

fun b64encode :: "bytes \<Rightarrow> str" where
  "b64encode [] = []"
| "b64encode [a] =
     [table_b2a_base64 (drop_bit 2 a),
      table_b2a_base64 (push_bit 4 a),
      CHR ''='', CHR ''='']"
| "b64encode [a, b] =
     [table_b2a_base64 (drop_bit 2 a),
      table_b2a_base64 (push_bit 4 a OR drop_bit 4 b),
      table_b2a_base64 (push_bit 2 b),
      CHR ''='']"
| "b64encode (a # b # c # rest) =
     [table_b2a_base64 (drop_bit 2 a),
      table_b2a_base64 (push_bit 4 a OR drop_bit 4 b),
      table_b2a_base64 (push_bit 2 b OR drop_bit 6 c),
      table_b2a_base64 c]
     @ b64encode rest"

text \<open>The characters the decoder does not skip: the alphabet and the padding.\<close>

definition significant :: "char \<Rightarrow> bool" where
  "significant c = (c = CHR ''='' \<or> table_a2b_base64 c \<noteq> None)"

subsection \<open>The clients\<close>

definition get_object :: "world \<Rightarrow> ref \<Rightarrow> str \<Rightarrow> str \<Rightarrow> (exn + response) \<times> world" where
  "get_object w c b k = (s3 w c b k, w\<lparr>trace := trace w @ [GetObject c b k]\<rparr>)"

definition get_contents :: "world \<Rightarrow> ref \<Rightarrow> str \<Rightarrow> (exn + contents) \<times> world" where
  "get_contents w r p = (github w r p, w\<lparr>trace := trace w @ [GetContents r p]\<rparr>)"

text \<open>
  Reading the attribute \<open>content\<close> of what \<open>get_contents\<close> returned: a list has no
  such attribute.
\<close>

fun attr_content :: "contents \<Rightarrow> exn + str" where
  "attr_content (Single cf) = Inr (content cf)"
| "attr_content (Listing cfs) = Inl AttributeError"

section \<open>The readers\<close>

text \<open>The result of a method call: outcome, the object afterwards, the world afterwards.\<close>

type_synonym ('s, 'a) call = "(exn + 'a) \<times> 's \<times> world"

definition outcome :: "('s, 'a) call \<Rightarrow> exn + 'a" where
  "outcome c = fst c"

definition self_after :: "('s, 'a) call \<Rightarrow> 's" where
  "self_after c = fst (snd c)"

definition world_after :: "('s, 'a) call \<Rightarrow> world" where
  "world_after c = snd (snd c)"

subsection \<open>\<open>ReaderImp\<close>\<close>

definition ReaderImp_read :: "'s \<Rightarrow> world \<Rightarrow> 'a \<Rightarrow> ('s, 'b) call" where
  "ReaderImp_read self w path = (Inl NotImplementedError, self, w)"

subsection \<open>\<open>LocalReaderImp\<close>\<close>

record LocalReaderImp =
  path_prefix :: str

definition LocalReaderImp_init :: "str \<Rightarrow> LocalReaderImp" where
  "LocalReaderImp_init prefix = \<lparr>path_prefix = prefix\<rparr>"

definition LocalReaderImp_read :: "LocalReaderImp \<Rightarrow> world \<Rightarrow> str \<Rightarrow> (LocalReaderImp, str) call" where
  "LocalReaderImp_read self w path =
     (case os_path_join (path_prefix self) [path] [] of
        Inl e \<Rightarrow> (Inl e, self, w)
      | Inr full \<Rightarrow>
          (case builtin_open w full of
             (Inl e, w') \<Rightarrow> (Inl e, self, w')
           | (Inr f, w') \<Rightarrow>
               (case file_read f of
                  Inl e \<Rightarrow> (Inl e, self, w')
                | Inr contents \<Rightarrow> (Inr contents, self, w'))))"

subsection \<open>\<open>S3ReaderImp\<close>\<close>

record S3ReaderImp =
  client :: ref
  bucket :: str

definition S3ReaderImp_init :: "ref \<Rightarrow> str \<Rightarrow> S3ReaderImp" where
  "S3ReaderImp_init boto3_client b = \<lparr>client = boto3_client, bucket = b\<rparr>"

definition S3ReaderImp_read :: "S3ReaderImp \<Rightarrow> world \<Rightarrow> str \<Rightarrow> (S3ReaderImp, bytes) call" where
  "S3ReaderImp_read self w path =
     (case get_object w (client self) (bucket self) path of
        (Inl e, w') \<Rightarrow> (Inl e, self, w')
      | (Inr resp, w') \<Rightarrow> (Body resp, self, w'))"

subsection \<open>\<open>GithubGetContentsReaderImp\<close>\<close>

record GithubGetContentsReaderImp =
  repo :: ref

definition GithubGetContentsReaderImp_init :: "ref \<Rightarrow> GithubGetContentsReaderImp" where
  "GithubGetContentsReaderImp_init pygithub_repo = \<lparr>repo = pygithub_repo\<rparr>"

definition GithubGetContentsReaderImp_read ::
  "GithubGetContentsReaderImp \<Rightarrow> world \<Rightarrow> str \<Rightarrow> (GithubGetContentsReaderImp, bytes) call" where
  "GithubGetContentsReaderImp_read self w path =
     (case get_contents w (repo self) path of
        (Inl e, w') \<Rightarrow> (Inl e, self, w')
      | (Inr content_file, w') \<Rightarrow>
          (case attr_content content_file of
             Inl e \<Rightarrow> (Inl e, self, w')
           | Inr c \<Rightarrow> (b64decode c, self, w')))"

subsection \<open>\<open>GithubCloneRepoReaderImp\<close>\<close>

text \<open>The field \<open>self.repo\<close> of this class is called \<open>git_repo\<close> here.\<close>

record GithubCloneRepoReaderImp =
  git_repo :: ref

definition GithubCloneRepoReaderImp_init :: "ref \<Rightarrow> GithubCloneRepoReaderImp" where
  "GithubCloneRepoReaderImp_init gitpython_repo = \<lparr>git_repo = gitpython_repo\<rparr>"

text \<open>
  The method passes \<open>encoding="utf-8"\<close> to \<open>os.path.join\<close>, not to \<open>open\<close>, and uses
  the result of the join as a context manager. Had the join returned, the \<open>with\<close>
  statement would have raised on the \<open>str\<close>, which has no \<open>__enter__\<close> (\<open>TypeError\<close>
  since Python 3.11, \<open>AttributeError\<close> before); the body of the \<open>with\<close> is never run.
\<close>

definition GithubCloneRepoReaderImp_read ::
  "GithubCloneRepoReaderImp \<Rightarrow> world \<Rightarrow> str \<Rightarrow> (GithubCloneRepoReaderImp, str) call" where
  "GithubCloneRepoReaderImp_read self w path =
     (case os_path_join (working_tree_dir w (git_repo self)) [path] [(''encoding'', ''utf-8'')] of
        Inl e \<Rightarrow> (Inl e, self, w)
      | Inr full \<Rightarrow> (Inl TypeError, self, w))"

subsection \<open>\<open>TransparentReaderImp\<close>\<close>

definition TransparentReaderImp_read :: "'s \<Rightarrow> world \<Rightarrow> 'a \<Rightarrow> ('s, 'a) call" where
  "TransparentReaderImp_read self w path = (Inr path, self, w)"

section \<open>A sample world\<close>

text \<open>
  A directory \<open>/tmp\<close>, the current one, with \<open>a.txt\<close> holding \<open>hello\<close>, \<open>crlf.txt\<close>
  holding the two lines \<open>a\<close> and \<open>b\<close> separated by \<open>\r\n\<close>, \<open>bad.txt\<close> holding the
  single byte \<open>0xFF\<close> and \<open>secret.txt\<close> that the process may not read; a file
  \<open>/etc/motd\<close>; a bucket \<open>my-bucket\<close> with one object; a
  hosted repository with a file \<open>README.md\<close>, a file \<open>broken.bin\<close> whose payload is
  no base64 and a directory \<open>docs\<close>; a clone of it checked out at \<open>/tmp\<close>.
\<close>

definition hello_bytes :: bytes where
  "hello_bytes = [0x68, 0x65, 0x6C, 0x6C, 0x6F]"

definition crlf_bytes :: bytes where
  "crlf_bytes = [0x61, 0x0D, 0x0A, 0x62]"

definition sample_root :: node where
  "sample_root =
     Dir True True
       [(''tmp'', Dir True True
           [(''a.txt'', File True hello_bytes),
            (''crlf.txt'', File True crlf_bytes),
            (''bad.txt'', File True [0xFF]),
            (''secret.txt'', File False hello_bytes)]),
        (''etc'', Dir True True
           [(''motd'', File True [0x68, 0x69])])]"

definition sample_s3 :: "ref \<Rightarrow> str \<Rightarrow> str \<Rightarrow> exn + response" where
  "sample_s3 c b k =
     (if b = ''my-bucket'' \<and> k = ''k1'' then Inr \<lparr>Body = Inr [1, 2, 3]\<rparr>
      else Inl (ClientError ''NoSuchKey''))"

text \<open>The payload of \<open>README.md\<close>: \<open>hello\<close> in base64, in two lines.\<close>

definition readme_payload :: str where
  "readme_payload = ''aGVs'' @ [CHR 0x0A] @ ''bG8='' @ [CHR 0x0A]"

definition sample_github :: "ref \<Rightarrow> str \<Rightarrow> exn + contents" where
  "sample_github r p =
     (if p = ''README.md'' then Inr (Single (ContentFile readme_payload))
      else if p = ''broken.bin'' then Inr (Single (ContentFile ''a''))
      else if p = ''docs'' then Inr (Listing [ContentFile ''aGk=''])
      else Inl (ClientError ''UnknownObjectException''))"

definition sample_world :: world where
  "sample_world =
     \<lparr>root_dir = sample_root,
      cwd = [''tmp''],
      name_max = 255,
      path_max = 4096,
      os_fault = (\<lambda>path. None),
      s3 = sample_s3,
      github = sample_github,
      working_tree_dir = (\<lambda>r. ''/tmp''),
      trace = []\<rparr>"

section \<open>Facts about the collaborators\<close>

lemma os_path_join_two: "os_path_join a [b] [] = Inr (join_step a b)"
  by (simp add: os_path_join_def)

lemma os_path_join_keyword: "os_path_join a p (kw # kws) = Inl TypeError"
  by (simp add: os_path_join_def)

lemma join_step_relative:
  "\<not> isabs p \<Longrightarrow>
     join_step root p = (if root = [] \<or> endswith root sep then root @ p else root @ sep @ p)"
  by (simp add: join_step_def isabs_def)

lemma join_step_absolute: "isabs p \<Longrightarrow> join_step root p = p"
  by (simp add: join_step_def isabs_def)

lemma read_text_file:
  "resolve w path = Found (File True bs) \<Longrightarrow> utf8_decode bs = Inr s \<Longrightarrow>
     read_text w path = Inr (universal_newlines s)"
  by (simp add: read_text_def builtin_open_def)

lemma read_text_undecodable:
  "resolve w path = Found (File True bs) \<Longrightarrow> \<not> utf8_wellformed bs \<Longrightarrow>
     read_text w path = Inl UnicodeDecodeError"
  by (simp add: read_text_def builtin_open_def utf8_decode_def)

lemma read_text_unreadable:
  "resolve w path = Found (File False bs) \<Longrightarrow> read_text w path = Inl PermissionError"
  by (simp add: read_text_def builtin_open_def)

lemma read_text_directory:
  "resolve w path = Found (Dir True x entries) \<Longrightarrow> read_text w path = Inl IsADirectoryError"
  by (simp add: read_text_def builtin_open_def)



lemma read_text_no_access:
  "resolve w path = NoAccess \<Longrightarrow> read_text w path = Inl PermissionError"
  by (simp add: read_text_def builtin_open_def)

lemma read_text_too_long: "resolve w path = TooLong \<Longrightarrow> read_text w path = Inl (OSError 36)"
  by (simp add: read_text_def builtin_open_def)

lemma read_text_nul: "CHR 0x00 \<in> set path \<Longrightarrow> read_text w path = Inl ValueError"
  by (simp add: read_text_def builtin_open_def resolve_def)

lemma read_text_fault:
  "CHR 0x00 \<notin> set path \<Longrightarrow> os_fault w path = Some e \<Longrightarrow> read_text w path = Inl e"
  by (simp add: read_text_def builtin_open_def resolve_def)


lemma universal_newlines_removes_CR: "CR \<notin> set (universal_newlines s)"
  by (induction s rule: universal_newlines.induct) (auto simp: CR_def LF_def)

subsection \<open>Base64: decoding inverts encoding\<close>

lemma masks: "(3 :: 8 word) = mask 2" "(15 :: 8 word) = mask 4" "(63 :: 8 word) = mask 6"
  by (simp_all add: mask_eq_exp_minus_1)

lemma and_63_less: "v AND 0x3F < (64 :: 8 word)"
  using and_mask_less_size [of 6 v] by (simp add: masks word_size)

lemma table_inverse: "table_a2b_base64 (table_b2a_base64 v) = Some (v AND 0x3F)"
proof -
  define n where "n = unat (v AND 0x3F)"
  have n: "n < 64" "v AND 0x3F = of_nat n"
    using and_63_less [of v] by (simp_all add: n_def word_less_nat_alt)
  have b2a: "table_b2a_base64 v =
      (if n < 26 then char_of (n + 65)
       else if n < 52 then char_of (n + 71)
       else if n < 62 then char_of (n - 4)
       else if n = 62 then CHR ''+''
       else CHR ''/'')"
    by (simp add: table_b2a_base64_def n_def)
  have "n < 26 \<or> (26 \<le> n \<and> n < 52) \<or> (52 \<le> n \<and> n < 62) \<or> n = 62 \<or> n = 63"
    using n(1) by arith
  then show ?thesis
    unfolding n(2) b2a table_a2b_base64_def Let_def
    by (elim disjE) auto
qed

lemma table_not_pad: "table_b2a_base64 v \<noteq> CHR ''=''"
proof -
  have "of_char (table_b2a_base64 v) \<noteq> (61 :: nat)"
    unfolding table_b2a_base64_def Let_def by auto
  then show ?thesis by auto
qed

lemma table_ascii: "\<not> (128 :: nat) \<le> of_char (table_b2a_base64 v)"
  unfolding table_b2a_base64_def Let_def by auto

lemma Suc_Suc_diff_2: "2 \<le> n \<Longrightarrow> Suc (Suc (n - 2)) = n"
  by arith

lemma regroup1:
  fixes a b :: "8 word"
  shows "push_bit 2 (drop_bit 2 a AND 0x3F) OR drop_bit 4 ((push_bit 4 a OR drop_bit 4 b) AND 0x3F) = a"
  unfolding masks take_bit_eq_mask [symmetric]
proof (rule bit_word_eqI)
  fix n
  assume "n < LENGTH(8)"
  then show "bit (push_bit 2 (take_bit 6 (drop_bit 2 a))
      OR drop_bit 4 (take_bit 6 (push_bit 4 a OR drop_bit 4 b))) n = bit a n"
    by (cases "2 \<le> n") (auto simp add: bit_simps Suc_Suc_diff_2 not_le dest: bit_imp_le_length)
qed

lemma regroup2:
  fixes a b c :: "8 word"
  shows "push_bit 4 (((push_bit 4 a OR drop_bit 4 b) AND 0x3F) AND 0x0F)
       OR drop_bit 2 ((push_bit 2 b OR drop_bit 6 c) AND 0x3F) = b"
  unfolding masks take_bit_eq_mask [symmetric]
proof (rule bit_word_eqI)
  fix n
  assume "n < LENGTH(8)"
  then show "bit (push_bit 4 (take_bit 4 (take_bit 6 (push_bit 4 a OR drop_bit 4 b)))
      OR drop_bit 2 (take_bit 6 (push_bit 2 b OR drop_bit 6 c))) n = bit b n"
    by (cases "4 \<le> n") (auto simp add: bit_simps not_le dest: bit_imp_le_length)
qed

lemma regroup3:
  fixes b c :: "8 word"
  shows "push_bit 6 (((push_bit 2 b OR drop_bit 6 c) AND 0x3F) AND 0x03) OR (c AND 0x3F) = c"
  unfolding masks take_bit_eq_mask [symmetric]
proof (rule bit_word_eqI)
  fix n
  assume "n < LENGTH(8)"
  then show "bit (push_bit 6 (take_bit 2 (take_bit 6 (push_bit 2 b OR drop_bit 6 c)))
      OR take_bit 6 c) n = bit c n"
    by (cases "6 \<le> n") (auto simp add: bit_simps not_le dest: bit_imp_le_length)
qed

lemma regroup1_last:
  fixes a :: "8 word"
  shows "push_bit 2 (drop_bit 2 a AND 0x3F) OR drop_bit 4 (push_bit 4 a AND 0x3F) = a"
  using regroup1 [of a 0] by simp

lemma regroup2_last:
  fixes a b :: "8 word"
  shows "push_bit 4 (((push_bit 4 a OR drop_bit 4 b) AND 0x3F) AND 0x0F)
       OR drop_bit 2 (push_bit 2 b AND 0x3F) = b"
  using regroup2 [of a b 0] by simp

lemma a2b_base64_skip:
  "a2b_base64 s q l p out = a2b_base64 (filter significant s) q l p out"
  by (induction s q l p out rule: a2b_base64.induct)
    (auto simp add: significant_def split: option.splits)

lemma a2b_base64_four:
  "a2b_base64 (table_b2a_base64 v1 # table_b2a_base64 v2 # table_b2a_base64 v3
       # table_b2a_base64 v4 # rest) 0 l p out =
   a2b_base64 rest 0 0 0
     (out @ [push_bit 2 (v1 AND 0x3F) OR drop_bit 4 (v2 AND 0x3F),
             push_bit 4 ((v2 AND 0x3F) AND 0x0F) OR drop_bit 2 (v3 AND 0x3F),
             push_bit 6 ((v3 AND 0x3F) AND 0x03) OR (v4 AND 0x3F)])"
  by (simp add: table_inverse table_not_pad)

lemma a2b_base64_three:
  "a2b_base64 (table_b2a_base64 v1 # table_b2a_base64 v2 # table_b2a_base64 v3
       # CHR ''='' # rest) 0 l p out =
   Inr (out @ [push_bit 2 (v1 AND 0x3F) OR drop_bit 4 (v2 AND 0x3F),
               push_bit 4 ((v2 AND 0x3F) AND 0x0F) OR drop_bit 2 (v3 AND 0x3F)])"
  by (simp add: table_inverse table_not_pad)

lemma a2b_base64_two:
  "a2b_base64 (table_b2a_base64 v1 # table_b2a_base64 v2 # CHR ''='' # CHR ''='' # rest)
     0 l p out =
   Inr (out @ [push_bit 2 (v1 AND 0x3F) OR drop_bit 4 (v2 AND 0x3F)])"
  by (simp add: table_inverse table_not_pad)

lemma a2b_base64_encode:
  "a2b_base64 (b64encode bs) 0 l p out = Inr (out @ bs)"
proof (induction bs arbitrary: l p out rule: b64encode.induct)
  case 1
  show ?case by simp
next
  case (2 a)
  show ?case
    by (simp only: b64encode.simps a2b_base64_two regroup1_last)
next
  case (3 a b)
  show ?case
    by (simp only: b64encode.simps a2b_base64_three regroup1 regroup2_last)
next
  case (4 a b c rest)
  have "a2b_base64 (b64encode (a # b # c # rest)) 0 l p out
      = a2b_base64 (b64encode rest) 0 0 0 (out @ [a, b, c])"
    by (simp only: b64encode.simps append_Cons append_Nil a2b_base64_four
        regroup1 regroup2 regroup3)
  then show ?case
    by (simp add: 4)
qed

lemma b64encode_ascii: "isascii (b64encode bs)"
  unfolding isascii_def
  by (induction bs rule: b64encode.induct) (simp_all add: table_ascii)

lemma b64decode_b64encode: "b64decode (b64encode bs) = Inr bs"
  by (simp add: b64decode_def b64encode_ascii a2b_base64_encode)

text \<open>Characters outside the alphabet, such as line breaks, do not matter.\<close>

lemma b64decode_folded:
  assumes "filter significant s = b64encode bs"
    and "isascii s"
  shows "b64decode s = Inr bs"
  using assms a2b_base64_skip [of s 0 0 0 "[]"]
  by (simp add: b64decode_def a2b_base64_encode)

section \<open>The local reader\<close>

lemma LocalReaderImp_read_outcome:
  "outcome (LocalReaderImp_read self w p) = read_text w (join_step (path_prefix self) p)"
  by (simp add: LocalReaderImp_read_def os_path_join_two outcome_def read_text_def
      split: prod.splits sum.splits)

lemma LocalReaderImp_read_world:
  "world_after (LocalReaderImp_read self w p) =
     w\<lparr>trace := trace w @ [FileOpen (join_step (path_prefix self) p)]\<rparr>"
  by (auto simp add: LocalReaderImp_read_def os_path_join_two builtin_open_def world_after_def
      split: prod.splits sum.splits)

lemma LocalReaderImp_read_self: "self_after (LocalReaderImp_read self w p) = self"
  by (auto simp add: LocalReaderImp_read_def self_after_def split: prod.splits sum.splits)




text \<open>
  C10. For every root and every absolute path \<open>p\<close>, \<open>read\<close> opens \<open>p\<close> itself and
  returns what reading \<open>p\<close> gives, whatever the root is: joining a root with an absolute
  path yields the absolute path. For a relative path the file opened lies under the
  root: its path starts with the root.
\<close>

theorem LocalReaderImp_read_absolute:
  "(isabs p \<longrightarrow>
      outcome (LocalReaderImp_read (LocalReaderImp_init root) w p) = read_text w p
      \<and> trace (world_after (LocalReaderImp_read (LocalReaderImp_init root) w p))
          = trace w @ [FileOpen p]
      \<and> outcome (LocalReaderImp_read (LocalReaderImp_init root) w p)
          = outcome (LocalReaderImp_read (LocalReaderImp_init root') w p))
   \<and> (\<not> isabs p \<longrightarrow>
      (\<exists>full. trace (world_after (LocalReaderImp_read (LocalReaderImp_init root) w p))
                 = trace w @ [FileOpen full]
             \<and> startswith full root))"
proof -
  have abs: "join_step (path_prefix (LocalReaderImp_init r)) p = p" if "isabs p" for r
    using that by (simp add: join_step_absolute)
  have rel: "startswith (join_step (path_prefix (LocalReaderImp_init root)) p) root"
    if "\<not> isabs p"
    using that by (simp add: join_step_relative LocalReaderImp_init_def startswith_def)
  show ?thesis
    using rel by (auto simp add: LocalReaderImp_read_outcome LocalReaderImp_read_world abs)
qed

theorem LocalReaderImp_read_absolute_witness:
  "isabs ''/etc/motd''
   \<and> outcome (LocalReaderImp_read (LocalReaderImp_init ''/tmp'') sample_world ''/etc/motd'')
       = Inr ''hi''
   \<and> trace (world_after (LocalReaderImp_read (LocalReaderImp_init ''/tmp'') sample_world ''/etc/motd''))
       = [FileOpen ''/etc/motd'']
   \<and> outcome (LocalReaderImp_read (LocalReaderImp_init ''/tmp'') sample_world ''/etc/motd'')
       = outcome (LocalReaderImp_read (LocalReaderImp_init ''/srv/data'') sample_world ''/etc/motd'')
   \<and> \<not> isabs ''a.txt''
   \<and> (\<exists>full. trace (world_after (LocalReaderImp_read (LocalReaderImp_init ''/tmp'') sample_world ''a.txt''))
                 = trace sample_world @ [FileOpen full]
             \<and> startswith full ''/tmp'')"
proof -
  have a: "isabs ''/etc/motd''" "\<not> isabs ''a.txt''"
    by (simp_all add: isabs_def startswith_def sep_def)
  have f: "resolve sample_world ''/etc/motd'' = Found (File True [0x68, 0x69])"
    by code_simp
  have d: "utf8_decode [0x68, 0x69] = Inr ''hi''"
    by code_simp
  have t: "read_text sample_world ''/etc/motd'' = Inr ''hi''"
    using read_text_file [OF f d] by (simp add: CR_def)
  have e: "trace sample_world = []"
    by (simp add: sample_world_def)
  show ?thesis
    using LocalReaderImp_read_absolute [of "''/etc/motd''" "''/tmp''" sample_world "''/srv/data''"]
      LocalReaderImp_read_absolute [of "''a.txt''" "''/tmp''" sample_world "''/srv/data''"]
      a t e
    by auto
qed

section \<open>The object-store reader\<close>

lemma S3ReaderImp_read_outcome:
  "outcome (S3ReaderImp_read self w key) =
     (case s3 w (client self) (bucket self) key of Inl e \<Rightarrow> Inl e | Inr resp \<Rightarrow> Body resp)"
  by (simp add: S3ReaderImp_read_def get_object_def outcome_def split: sum.splits)

lemma S3ReaderImp_read_world:
  "world_after (S3ReaderImp_read self w key) =
     w\<lparr>trace := trace w @ [GetObject (client self) (bucket self) key]\<rparr>"
  by (simp add: S3ReaderImp_read_def get_object_def world_after_def split: sum.splits)

lemma S3ReaderImp_read_self: "self_after (S3ReaderImp_read self w key) = self"
  by (simp add: S3ReaderImp_read_def get_object_def self_after_def split: sum.splits prod.splits)

text \<open>
  C4. For every client, bucket and key, \<open>read\<close> issues exactly one \<open>get_object\<close>
  request, for that bucket and key, and returns what reading the response's body gives:
  the body's bytes, as they are.
\<close>

theorem S3ReaderImp_read_body:
  "trace (world_after (S3ReaderImp_read (S3ReaderImp_init c b) w key))
     = trace w @ [GetObject c b key]
   \<and> (s3 w c b key = Inr resp \<longrightarrow>
        outcome (S3ReaderImp_read (S3ReaderImp_init c b) w key) = Body resp)
   \<and> (s3 w c b key = Inr resp \<and> Body resp = Inr body \<longrightarrow>
        outcome (S3ReaderImp_read (S3ReaderImp_init c b) w key) = Inr body)"
  by (simp add: S3ReaderImp_read_outcome S3ReaderImp_read_world S3ReaderImp_init_def)

theorem S3ReaderImp_read_body_witness:
  "s3 sample_world 7 ''my-bucket'' ''k1'' = Inr \<lparr>Body = Inr [1, 2, 3]\<rparr>
   \<and> outcome (S3ReaderImp_read (S3ReaderImp_init 7 ''my-bucket'') sample_world ''k1'')
       = Inr [1, 2, 3]
   \<and> trace (world_after (S3ReaderImp_read (S3ReaderImp_init 7 ''my-bucket'') sample_world ''k1''))
       = [GetObject 7 ''my-bucket'' ''k1'']"
proof -
  have s: "s3 sample_world 7 ''my-bucket'' ''k1'' = Inr \<lparr>Body = Inr [1, 2, 3]\<rparr>"
    by (simp add: sample_world_def sample_s3_def)
  have e: "trace sample_world = []"
    by (simp add: sample_world_def)
  show ?thesis
    using S3ReaderImp_read_body [of 7 "''my-bucket''" sample_world "''k1''"
        "\<lparr>Body = Inr [1, 2, 3]\<rparr>" "[1, 2, 3]"] s e
    by simp
qed

section \<open>The hosted-repository reader\<close>

lemma GithubGetContentsReaderImp_read_outcome:
  "outcome (GithubGetContentsReaderImp_read self w p) =
     (case github w (repo self) p of
        Inl e \<Rightarrow> Inl e
      | Inr (Single cf) \<Rightarrow> b64decode (content cf)
      | Inr (Listing cfs) \<Rightarrow> Inl AttributeError)"
  by (simp add: GithubGetContentsReaderImp_read_def get_contents_def outcome_def
      split: sum.splits contents.splits)

lemma GithubGetContentsReaderImp_read_world:
  "world_after (GithubGetContentsReaderImp_read self w p) =
     w\<lparr>trace := trace w @ [GetContents (repo self) p]\<rparr>"
  by (simp add: GithubGetContentsReaderImp_read_def get_contents_def world_after_def
      split: sum.splits contents.splits)

lemma GithubGetContentsReaderImp_read_self:
  "self_after (GithubGetContentsReaderImp_read self w p) = self"
  by (simp add: GithubGetContentsReaderImp_read_def get_contents_def self_after_def
      split: sum.splits contents.splits prod.splits)

text \<open>
  C5. When \<open>get_contents\<close> returns a single content file, \<open>read\<close> returns what
  \<open>b64decode\<close> makes of its \<open>content\<close>: when the content is the base64 encoding of
  some bytes, broken into lines or not, these bytes; the decoder's exception when the
  payload does not decode. It fails with \<open>AttributeError\<close> when \<open>get_contents\<close>
  returns a listing (the path is a directory), and with the client's exception when
  \<open>get_contents\<close> raises (the path does not exist).
\<close>

theorem GithubGetContentsReaderImp_read_decodes:
  "(github w r p = Inr (Single cf) \<longrightarrow>
      outcome (GithubGetContentsReaderImp_read (GithubGetContentsReaderImp_init r) w p)
        = b64decode (content cf))
   \<and> (github w r p = Inr (Single cf) \<and> isascii (content cf)
        \<and> filter significant (content cf) = b64encode bs \<longrightarrow>
      outcome (GithubGetContentsReaderImp_read (GithubGetContentsReaderImp_init r) w p)
        = Inr bs)
   \<and> (github w r p = Inr (Single cf) \<and> b64decode (content cf) = Inl e \<longrightarrow>
      outcome (GithubGetContentsReaderImp_read (GithubGetContentsReaderImp_init r) w p)
        = Inl e)
   \<and> (github w r p = Inr (Listing cfs) \<longrightarrow>
      outcome (GithubGetContentsReaderImp_read (GithubGetContentsReaderImp_init r) w p)
        = Inl AttributeError)
   \<and> (github w r p = Inl e \<longrightarrow>
      outcome (GithubGetContentsReaderImp_read (GithubGetContentsReaderImp_init r) w p)
        = Inl e)"
  by (simp add: GithubGetContentsReaderImp_read_outcome GithubGetContentsReaderImp_init_def
      b64decode_folded)

theorem GithubGetContentsReaderImp_read_decodes_witness:
  "github sample_world 0 ''README.md'' = Inr (Single (ContentFile readme_payload))
   \<and> isascii readme_payload
   \<and> filter significant readme_payload = b64encode hello_bytes
   \<and> outcome (GithubGetContentsReaderImp_read
         (GithubGetContentsReaderImp_init 0) sample_world ''README.md'') = Inr hello_bytes
   \<and> github sample_world 0 ''broken.bin'' = Inr (Single (ContentFile ''a''))
   \<and> b64decode ''a'' = Inl BinasciiError
   \<and> outcome (GithubGetContentsReaderImp_read
         (GithubGetContentsReaderImp_init 0) sample_world ''broken.bin'') = Inl BinasciiError
   \<and> github sample_world 0 ''docs'' = Inr (Listing [ContentFile ''aGk=''])
   \<and> outcome (GithubGetContentsReaderImp_read
         (GithubGetContentsReaderImp_init 0) sample_world ''docs'') = Inl AttributeError
   \<and> github sample_world 0 ''nothing'' = Inl (ClientError ''UnknownObjectException'')
   \<and> outcome (GithubGetContentsReaderImp_read
         (GithubGetContentsReaderImp_init 0) sample_world ''nothing'')
       = Inl (ClientError ''UnknownObjectException'')"
proof -
  have g: "github sample_world 0 ''README.md'' = Inr (Single (ContentFile readme_payload))"
    "github sample_world 0 ''broken.bin'' = Inr (Single (ContentFile ''a''))"
    "github sample_world 0 ''docs'' = Inr (Listing [ContentFile ''aGk=''])"
    "github sample_world 0 ''nothing'' = Inl (ClientError ''UnknownObjectException'')"
    by (simp_all add: sample_world_def sample_github_def)
  have b: "isascii readme_payload" "filter significant readme_payload = b64encode hello_bytes"
    "b64decode ''a'' = Inl BinasciiError"
    by code_simp+
  have readme: "outcome (GithubGetContentsReaderImp_read
         (GithubGetContentsReaderImp_init 0) sample_world ''README.md'') = Inr hello_bytes"
    using GithubGetContentsReaderImp_read_decodes [of sample_world 0 "''README.md''"
        "ContentFile readme_payload" hello_bytes BinasciiError "[]", THEN conjunct2, THEN conjunct1] g(1) b(1,2)
    by (simp only: content_file.sel)
  have broken: "outcome (GithubGetContentsReaderImp_read
         (GithubGetContentsReaderImp_init 0) sample_world ''broken.bin'') = Inl BinasciiError"
    using GithubGetContentsReaderImp_read_decodes [of sample_world 0 "''broken.bin''"
        "ContentFile ''a''" "[]" BinasciiError "[]"] g(2) b(3)
    by simp
  have docs: "outcome (GithubGetContentsReaderImp_read
         (GithubGetContentsReaderImp_init 0) sample_world ''docs'') = Inl AttributeError"
    using GithubGetContentsReaderImp_read_decodes [of sample_world 0 "''docs''"
        "ContentFile ''a''" "[]" BinasciiError "[ContentFile ''aGk='']"] g(3)
    by simp
  have absent: "outcome (GithubGetContentsReaderImp_read
         (GithubGetContentsReaderImp_init 0) sample_world ''nothing'')
       = Inl (ClientError ''UnknownObjectException'')"
    using GithubGetContentsReaderImp_read_decodes [of sample_world 0 "''nothing''"
        "ContentFile ''a''" "[]" "ClientError ''UnknownObjectException''" "[]"] g(4)
    by simp
  show ?thesis
    using g b readme broken docs absent by simp
qed

section \<open>The cloned-repository reader\<close>

text \<open>The keyword argument makes \<open>os.path.join\<close> raise, before any file is opened.\<close>

lemma GithubCloneRepoReaderImp_read_raises:
  "GithubCloneRepoReaderImp_read self w p = (Inl TypeError, self, w)"
  by (simp add: GithubCloneRepoReaderImp_read_def os_path_join_keyword)

text \<open>
  C3 does not hold of the code. The working tree of repository \<open>0\<close> is \<open>/tmp\<close>, the file
  \<open>/tmp/a.txt\<close> holds \<open>hello\<close> and the local reader rooted at \<open>/tmp\<close> returns it; the
  cloned-repository reader raises \<open>TypeError\<close> and opens nothing.
\<close>

theorem GithubCloneRepoReaderImp_read_type_error:
  "working_tree_dir sample_world 0 = ''/tmp''
   \<and> read_text sample_world ''/tmp/a.txt'' = Inr ''hello''
   \<and> outcome (LocalReaderImp_read (LocalReaderImp_init ''/tmp'') sample_world ''a.txt'')
       = Inr ''hello''
   \<and> outcome (GithubCloneRepoReaderImp_read (GithubCloneRepoReaderImp_init 0) sample_world ''a.txt'')
       = Inl TypeError
   \<and> world_after (GithubCloneRepoReaderImp_read (GithubCloneRepoReaderImp_init 0) sample_world ''a.txt'')
       = sample_world"
proof -
  have f: "resolve sample_world ''/tmp/a.txt'' = Found (File True hello_bytes)"
    by code_simp
  have d: "utf8_decode hello_bytes = Inr ''hello''"
    by code_simp
  have t: "read_text sample_world ''/tmp/a.txt'' = Inr ''hello''"
    using read_text_file [OF f d] by (simp add: CR_def)
  have j: "join_step ''/tmp'' ''a.txt'' = ''/tmp/a.txt''"
    by (simp add: join_step_def startswith_def endswith_def sep_def)
  show ?thesis
    by (simp add: GithubCloneRepoReaderImp_read_raises outcome_def world_after_def
        LocalReaderImp_read_outcome [unfolded outcome_def] LocalReaderImp_init_def j t)
      (simp add: sample_world_def)
qed

section \<open>All readers\<close>

text \<open>
  C6, as amended. The cloned-repository reader is left aside. For the other readers, an
  exception of a delegated call (\<open>open\<close> and \<open>f.read\<close>, \<open>get_object\<close> and the body's
  \<open>read\<close>, \<open>get_contents\<close> and \<open>b64decode\<close>) leaves \<open>read\<close> as it is, and \<open>read\<close>
  makes each call once. For the local and the object-store reader, \<open>read\<close> raises exactly
  when a delegated call does. The hosted-repository reader raises when a delegated call
  does, and otherwise only with the \<open>AttributeError\<close> of a listing. The identity reader
  never raises.
\<close>

theorem readers_propagate_errors:
  "(outcome (LocalReaderImp_read l w p) = Inl e \<longleftrightarrow>
      fst (builtin_open w (join_step (path_prefix l) p)) = Inl e
      \<or> (\<exists>f. fst (builtin_open w (join_step (path_prefix l) p)) = Inr f \<and> file_read f = Inl e))
   \<and> (outcome (S3ReaderImp_read s w p) = Inl e \<longleftrightarrow>
      fst (get_object w (client s) (bucket s) p) = Inl e
      \<or> (\<exists>resp. fst (get_object w (client s) (bucket s) p) = Inr resp \<and> Body resp = Inl e))
   \<and> (fst (get_contents w (repo g) p) = Inl e
      \<or> (\<exists>cf. fst (get_contents w (repo g) p) = Inr (Single cf) \<and> b64decode (content cf) = Inl e)
      \<longrightarrow> outcome (GithubGetContentsReaderImp_read g w p) = Inl e)
   \<and> (outcome (GithubGetContentsReaderImp_read g w p) = Inl e \<longrightarrow>
      fst (get_contents w (repo g) p) = Inl e
      \<or> (\<exists>cf. fst (get_contents w (repo g) p) = Inr (Single cf) \<and> b64decode (content cf) = Inl e)
      \<or> (\<exists>cfs. fst (get_contents w (repo g) p) = Inr (Listing cfs) \<and> e = AttributeError))
   \<and> outcome (TransparentReaderImp_read t w x) \<noteq> Inl e
   \<and> trace (world_after (LocalReaderImp_read l w p))
       = trace w @ [FileOpen (join_step (path_prefix l) p)]
   \<and> trace (world_after (S3ReaderImp_read s w p))
       = trace w @ [GetObject (client s) (bucket s) p]
   \<and> trace (world_after (GithubGetContentsReaderImp_read g w p))
       = trace w @ [GetContents (repo g) p]
   \<and> trace (world_after (TransparentReaderImp_read t w x)) = trace w"
proof -
  have local: "outcome (LocalReaderImp_read l w p) = Inl e \<longleftrightarrow>
      fst (builtin_open w (join_step (path_prefix l) p)) = Inl e
      \<or> (\<exists>f. fst (builtin_open w (join_step (path_prefix l) p)) = Inr f \<and> file_read f = Inl e)"
    by (auto simp add: LocalReaderImp_read_outcome read_text_def split: sum.splits)
  have s3: "outcome (S3ReaderImp_read s w p) = Inl e \<longleftrightarrow>
      fst (get_object w (client s) (bucket s) p) = Inl e
      \<or> (\<exists>resp. fst (get_object w (client s) (bucket s) p) = Inr resp \<and> Body resp = Inl e)"
    by (auto simp add: S3ReaderImp_read_outcome get_object_def split: sum.splits)
  have gh1: "fst (get_contents w (repo g) p) = Inl e
      \<or> (\<exists>cf. fst (get_contents w (repo g) p) = Inr (Single cf) \<and> b64decode (content cf) = Inl e)
      \<longrightarrow> outcome (GithubGetContentsReaderImp_read g w p) = Inl e"
    by (auto simp add: GithubGetContentsReaderImp_read_outcome get_contents_def)
  have gh2: "outcome (GithubGetContentsReaderImp_read g w p) = Inl e \<longrightarrow>
      fst (get_contents w (repo g) p) = Inl e
      \<or> (\<exists>cf. fst (get_contents w (repo g) p) = Inr (Single cf) \<and> b64decode (content cf) = Inl e)
      \<or> (\<exists>cfs. fst (get_contents w (repo g) p) = Inr (Listing cfs) \<and> e = AttributeError)"
    by (auto simp add: GithubGetContentsReaderImp_read_outcome get_contents_def
        split: sum.splits contents.splits)
  have tr: "outcome (TransparentReaderImp_read t w x) \<noteq> Inl e"
    "trace (world_after (TransparentReaderImp_read t w x)) = trace w"
    by (simp_all add: TransparentReaderImp_read_def outcome_def world_after_def)
  show ?thesis
    using local s3 gh1 gh2 tr
    by (simp only: LocalReaderImp_read_world S3ReaderImp_read_world
        GithubGetContentsReaderImp_read_world) simp
qed

theorem readers_propagate_errors_witness:
  "fst (builtin_open sample_world (join_step ''/tmp'' ''missing.txt'')) = Inl FileNotFoundError
   \<and> outcome (LocalReaderImp_read (LocalReaderImp_init ''/tmp'') sample_world ''missing.txt'')
       = Inl FileNotFoundError
   \<and> fst (get_object sample_world 0 ''my-bucket'' ''k2'') = Inl (ClientError ''NoSuchKey'')
   \<and> outcome (S3ReaderImp_read (S3ReaderImp_init 0 ''my-bucket'') sample_world ''k2'')
       = Inl (ClientError ''NoSuchKey'')
   \<and> fst (get_contents sample_world 0 ''nothing'') = Inl (ClientError ''UnknownObjectException'')
   \<and> outcome (GithubGetContentsReaderImp_read
         (GithubGetContentsReaderImp_init 0) sample_world ''nothing'')
       = Inl (ClientError ''UnknownObjectException'')
   \<and> outcome (GithubGetContentsReaderImp_read
         (GithubGetContentsReaderImp_init 0) sample_world ''docs'') = Inl AttributeError
   \<and> (\<exists>cfs. fst (get_contents sample_world 0 ''docs'') = Inr (Listing cfs))"
proof -
  have o: "fst (builtin_open sample_world (join_step ''/tmp'' ''missing.txt''))
      = Inl FileNotFoundError"
    by code_simp
  have s: "fst (get_object sample_world 0 ''my-bucket'' ''k2'') = Inl (ClientError ''NoSuchKey'')"
    by (simp add: get_object_def sample_world_def sample_s3_def)
  have g: "fst (get_contents sample_world 0 ''nothing'')
      = Inl (ClientError ''UnknownObjectException'')"
    "fst (get_contents sample_world 0 ''docs'') = Inr (Listing [ContentFile ''aGk=''])"
    by (simp_all add: get_contents_def sample_world_def sample_github_def)
  have a: "outcome (GithubGetContentsReaderImp_read
         (GithubGetContentsReaderImp_init 0) sample_world ''docs'') = Inl AttributeError"
    by (simp add: GithubGetContentsReaderImp_read_outcome GithubGetContentsReaderImp_init_def
        sample_world_def sample_github_def)
  note inst = readers_propagate_errors [of "LocalReaderImp_init ''/tmp''" sample_world _ _
      "S3ReaderImp_init 0 ''my-bucket''" "GithubGetContentsReaderImp_init 0"
      "()" "()"]
  have l: "outcome (LocalReaderImp_read (LocalReaderImp_init ''/tmp'') sample_world ''missing.txt'')
       = Inl FileNotFoundError"
    using inst [of "''missing.txt''" FileNotFoundError] o
    by (simp add: LocalReaderImp_init_def)
  have s': "outcome (S3ReaderImp_read (S3ReaderImp_init 0 ''my-bucket'') sample_world ''k2'')
       = Inl (ClientError ''NoSuchKey'')"
    using inst [of "''k2''" "ClientError ''NoSuchKey''"] s
    by (simp add: S3ReaderImp_init_def)
  have g': "outcome (GithubGetContentsReaderImp_read
         (GithubGetContentsReaderImp_init 0) sample_world ''nothing'')
       = Inl (ClientError ''UnknownObjectException'')"
    using inst [of "''nothing''" "ClientError ''UnknownObjectException''"] g(1)
    by (simp add: GithubGetContentsReaderImp_init_def)
  show ?thesis
    using o s g a l s' g' by simp
qed

text \<open>
  C6 as stated fails for the hosted-repository reader on a directory: \<open>get_contents\<close>
  returns a listing without raising, \<open>b64decode\<close> is not reached, and \<open>read\<close> raises
  \<open>AttributeError\<close>.
\<close>

theorem readers_propagate_errors_counterexample:
  "fst (get_contents sample_world 0 ''docs'') = Inr (Listing [ContentFile ''aGk=''])
   \<and> outcome (GithubGetContentsReaderImp_read
         (GithubGetContentsReaderImp_init 0) sample_world ''docs'') = Inl AttributeError"
  by (simp add: GithubGetContentsReaderImp_read_outcome GithubGetContentsReaderImp_init_def
      get_contents_def sample_world_def sample_github_def)

text \<open>
  C7. Whether it returns or raises, \<open>read\<close> leaves the reader object as it was: the
  path prefix, the client and the bucket, the repository are those given at construction.
\<close>

theorem readers_not_mutated:
  "self_after (LocalReaderImp_read l w p) = l
   \<and> self_after (S3ReaderImp_read s w p) = s
   \<and> self_after (GithubGetContentsReaderImp_read g w p) = g
   \<and> self_after (GithubCloneRepoReaderImp_read c w p) = c
   \<and> self_after (TransparentReaderImp_read t w x) = t
   \<and> path_prefix (self_after (LocalReaderImp_read (LocalReaderImp_init root) w p)) = root
   \<and> client (self_after (S3ReaderImp_read (S3ReaderImp_init cl b) w p)) = cl
   \<and> bucket (self_after (S3ReaderImp_read (S3ReaderImp_init cl b) w p)) = b
   \<and> repo (self_after (GithubGetContentsReaderImp_read
         (GithubGetContentsReaderImp_init r) w p)) = r
   \<and> git_repo (self_after (GithubCloneRepoReaderImp_read
         (GithubCloneRepoReaderImp_init r') w p)) = r'"
  by (simp add: LocalReaderImp_read_self S3ReaderImp_read_self
      GithubGetContentsReaderImp_read_self GithubCloneRepoReaderImp_read_raises
      TransparentReaderImp_read_def self_after_def [of "(a, b)" for a b]
      LocalReaderImp_init_def S3ReaderImp_init_def GithubGetContentsReaderImp_init_def
      GithubCloneRepoReaderImp_init_def)

section \<open>The identity reader and the interface class\<close>

text \<open>
  C1. For every input \<open>x\<close>, \<open>TransparentReaderImp().read(x)\<close> returns \<open>x\<close> itself,
  unchanged, and never raises: the outcome is the value \<open>x\<close>, whatever the reader object
  and the world are, and the call touches neither.
\<close>

theorem TransparentReaderImp_read_identity:
  "outcome (TransparentReaderImp_read self w x) = Inr x
   \<and> self_after (TransparentReaderImp_read self w x) = self
   \<and> world_after (TransparentReaderImp_read self w x) = w"
  by (simp add: TransparentReaderImp_read_def outcome_def self_after_def world_after_def)

text \<open>
  C9. For every path, \<open>read\<close> of the interface class \<open>ReaderImp\<close> itself raises
  \<open>NotImplementedError\<close>, and does nothing else.
\<close>

theorem ReaderImp_read_not_implemented:
  "outcome (ReaderImp_read self w path) = Inl NotImplementedError
   \<and> self_after (ReaderImp_read self w path) = self
   \<and> world_after (ReaderImp_read self w path) = w"
  by (simp add: ReaderImp_read_def outcome_def self_after_def world_after_def)

end
